theory Spec2Isabelle
  imports Complex_Main
begin

section \<open>Python values used by the scraper\<close>

text \<open>
  Exceptions are values. Each constructor is the Python exception class the source
  raises, with its message (or, for \<open>NotFoundError\<close>, its \<open>missing\<close> field).
  \<open>KeyError\<close> and \<open>IndexError\<close> are what subscripting a tag without the attribute
  and an empty list raise; \<open>AttributeError\<close> is also what reading an attribute of
  \<open>None\<close> raises. Messages are written without the quotation marks around names.
\<close>

datatype error =
    NotFoundError string
  | AttributeError string
  | TypeError string
  | KeyError string
  | IndexError string
  | HTTPError string
  | ValueError string
  | RequestException string

text \<open>
  A parsed document (bs4). A \<open>Tag\<close> has a name, the value of its \<open>class\<close>
  attribute (\<open>None\<close> when the tag has no such attribute, otherwise the list of its
  whitespace-separated tokens) and its children; a \<open>NavigableString\<close> is a text leaf.
  The element type \<open>'c\<close> of text is Python's code point; names of tags and classes
  are only ever compared with ASCII literals.
\<close>

datatype 'c node =
    Tag string "string list option" "'c node list"
  | NavigableString "'c list"

text \<open>\<open>tag.text\<close>: the strings below the node, in document order.\<close>

fun get_text :: "'c node \<Rightarrow> 'c list" where
  "get_text (NavigableString s) = s"
| "get_text (Tag n c ks) = concat (map get_text ks)"

text \<open>\<open>tag.contents\<close>: the direct children.\<close>

fun contents :: "'c node \<Rightarrow> 'c node list" where
  "contents (NavigableString s) = []"
| "contents (Tag n c ks) = ks"

text \<open>\<open>tag.descendants\<close>: everything below the node, in document order (pre-order).\<close>

fun descendants :: "'c node \<Rightarrow> 'c node list" where
  "descendants (NavigableString s) = []"
| "descendants (Tag n c ks) = concat (map (\<lambda>k. k # descendants k) ks)"

text \<open>
  The filter of \<open>find_all(name, class_=c)\<close>: only tags match, the name must be equal
  when one is given, and \<open>c\<close> must be one of the tokens of the tag's class attribute.
\<close>

fun matches :: "string option \<Rightarrow> string \<Rightarrow> 'c node \<Rightarrow> bool" where
  "matches nm c (NavigableString s) = False"
| "matches nm c (Tag n None ks) = False"
| "matches nm c (Tag n (Some cs) ks) =
     ((case nm of None \<Rightarrow> True | Some m \<Rightarrow> n = m) \<and> c \<in> set cs)"

definition find_all :: "string option \<Rightarrow> string \<Rightarrow> bool \<Rightarrow> 'c node \<Rightarrow> 'c node list" where
  "find_all nm c recursive t =
     filter (matches nm c) (if recursive then descendants t else contents t)"

text \<open>\<open>soup.find(name, class_=c)\<close>: the first match in document order, or \<open>None\<close>.\<close>

definition find_first :: "string \<Rightarrow> string \<Rightarrow> 'c node \<Rightarrow> 'c node option" where
  "find_first nm c t =
     (case find_all (Some nm) c True t of [] \<Rightarrow> None | x # xs \<Rightarrow> Some x)"

text \<open>
  A list comprehension whose element expression may raise: elements are evaluated
  from left to right and the first exception ends the comprehension.
\<close>

fun comprehension :: "('a \<Rightarrow> error + 'b) \<Rightarrow> 'a list \<Rightarrow> error + 'b list" where
  "comprehension f [] = Inr []"
| "comprehension f (x # xs) =
     (case f x of
        Inl e \<Rightarrow> Inl e
      | Inr y \<Rightarrow> (case comprehension f xs of Inl e \<Rightarrow> Inl e | Inr ys \<Rightarrow> Inr (y # ys)))"

text \<open>The slice \<open>s[:-8]\<close>: all but the last eight elements, empty when there are fewer.\<close>

definition slice_to_minus8 :: "'a list \<Rightarrow> 'a list" where
  "slice_to_minus8 s = (if length s \<le> 8 then [] else take (length s - 8) s)"

section \<open>RottenTomatoesScraper\<close>

text \<open>
  \<open>calculate_score\<close> is the same text in both copies of the class
  (\<open>RottenTomatoesScraper/RottenTomatoesScraper.py\<close> and
  \<open>data_collection/RottenTomatoesScraper/scraper.py\<close>). The score is a Python float;
  every value it takes here is a count plus half a count, which a double holds exactly
  for counts below \<open>2^52\<close>, so it is modelled by the rational with the same value.
  \<open>star_display["class"]\<close> raises \<open>KeyError\<close> on a tag without a class attribute
  and the subscript \<open>[0]\<close> raises \<open>IndexError\<close> on an empty token list.
\<close>

fun calculate_score :: "'c node \<Rightarrow> error + rat" where
  "calculate_score (NavigableString s) =
     Inl (TypeError ''Input must be of type bs4.element.Tag'')"
| "calculate_score (Tag n None ks) = Inl (KeyError ''class'')"
| "calculate_score (Tag n (Some []) ks) = Inl (IndexError ''list index out of range'')"
| "calculate_score (Tag n (Some (c # cs)) ks) =
     (if \<not> c = ''star-display'' then Inl (TypeError ''Tag must be of class star-display'')
      else
        let full_star_count =
              length (find_all None ''star-display__filled'' False (Tag n (Some (c # cs)) ks));
            half_star_count =
              length (find_all None ''star-display__half'' False (Tag n (Some (c # cs)) ks))
        in Inr (of_nat full_star_count + of_nat half_star_count * (1 / 2)))"

text \<open>
  The state of a scraper object. The copy under \<open>data_collection\<close> has the
  additional attribute \<open>titles\<close>.
\<close>

record 'c scraper =
  review_scores :: "rat list"
  review_text :: "'c list list"
  title :: "'c list"

record 'c scraper_dc = "'c scraper" +
  titles :: "'c list list"

text \<open>A column of the dictionary that \<open>to_dict\<close> returns.\<close>

datatype 'c column = Strings "'c list list" | Numbers "rat list"

fun column_length :: "'c column \<Rightarrow> nat" where
  "column_length (Strings xs) = length xs"
| "column_length (Numbers xs) = length xs"

subsection \<open>\<open>RottenTomatoesScraper/RottenTomatoesScraper.py\<close>\<close>

text \<open>
  \<open>soup.find(...)\<close> returns \<open>None\<close> when there is no such tag, and \<open>.text\<close> of
  \<open>None\<close> raises \<open>AttributeError\<close>. The emptiness test is on \<open>title_dirty\<close>, before
  the slice.
\<close>

definition extract_movie_title :: "'c node \<Rightarrow> error + 'c list" where
  "extract_movie_title soup =
     (case find_first ''h2'' ''panel-heading'' soup of
        None \<Rightarrow> Inl (AttributeError ''NoneType object has no attribute text'')
      | Some h \<Rightarrow>
          let title_dirty = get_text h
          in if title_dirty = [] then Inl (NotFoundError ''movie title'')
             else Inr (slice_to_minus8 title_dirty))"

definition extract_review_text :: "'c node \<Rightarrow> error + 'c list list" where
  "extract_review_text soup =
     (let reviews = find_all (Some ''p'') ''audience-reviews__review'' True soup
      in if reviews = [] then Inl (NotFoundError ''review text'')
         else Inr (map get_text reviews))"

definition extract_review_scores :: "'c node \<Rightarrow> error + rat list" where
  "extract_review_scores soup =
     (let star_displays = find_all None ''star-display'' True soup
      in if star_displays = [] then Inl (NotFoundError ''star-display tags'')
         else comprehension calculate_score star_displays)"

text \<open>
  An HTTP response as the program reads it: the status code, the elapsed time (a
  \<open>timedelta\<close>, in microseconds) and the body.
\<close>

record response =
  status_code :: int
  elapsed :: int
  content :: string

text \<open>\<open>raise_for_status\<close> raises for the client and server error codes.\<close>

definition raise_for_status :: "response \<Rightarrow> error + unit" where
  "raise_for_status src =
     (if 400 \<le> status_code src \<and> status_code src < 600
      then Inl (HTTPError ''Client or Server Error'') else Inr ())"

text \<open>
  \<open>requests_get\<close> is the network: the response to a GET of the URL, or the exception
  \<open>requests.get\<close> raises.
\<close>

definition fetch_src_content :: "(string \<Rightarrow> error + response) \<Rightarrow> string \<Rightarrow> error + string" where
  "fetch_src_content requests_get source =
     (case requests_get source of
        Inl e \<Rightarrow> Inl e
      | Inr src \<Rightarrow> (case raise_for_status src of Inl e \<Rightarrow> Inl e | Inr u \<Rightarrow> Inr (content src)))"

text \<open>
  The constructor. \<open>BeautifulSoup\<close> is the parser (\<open>BeautifulSoup(content, "lxml")\<close>),
  taken as a parameter.
\<close>

definition RottenTomatoesScraper ::
  "(string \<Rightarrow> error + response) \<Rightarrow> (string \<Rightarrow> 'c node) \<Rightarrow> string \<Rightarrow> error + 'c scraper" where
  "RottenTomatoesScraper requests_get BeautifulSoup source =
     (case fetch_src_content requests_get source of
        Inl e \<Rightarrow> Inl e
      | Inr src_content \<Rightarrow>
          let soup = BeautifulSoup src_content
          in (case extract_review_scores soup of
                Inl e \<Rightarrow> Inl e
              | Inr scores \<Rightarrow>
                  (case extract_review_text soup of
                     Inl e \<Rightarrow> Inl e
                   | Inr texts \<Rightarrow>
                       (case extract_movie_title soup of
                          Inl e \<Rightarrow> Inl e
                        | Inr t \<Rightarrow>
                            Inr \<lparr>review_scores = scores, review_text = texts, title = t\<rparr>))))"

definition to_dict :: "'c scraper \<Rightarrow> (string \<times> 'c column) list" where
  "to_dict self =
     (let title_col = map (\<lambda>review. title self) (review_scores self)
      in [(''Title'', Strings title_col),
          (''Review Text'', Strings (review_text self)),
          (''Scores'', Numbers (review_scores self))])"

subsection \<open>\<open>data_collection/RottenTomatoesScraper/scraper.py\<close>\<close>

text \<open>The same extraction, raising \<open>AttributeError\<close> with a message.\<close>

definition extract_movie_title_dc :: "'c node \<Rightarrow> error + 'c list" where
  "extract_movie_title_dc soup =
     (case find_first ''h2'' ''panel-heading'' soup of
        None \<Rightarrow> Inl (AttributeError ''NoneType object has no attribute text'')
      | Some h \<Rightarrow>
          let title_dirty = get_text h
          in if title_dirty = []
             then Inl (AttributeError ''No movie title was found in the content.'')
             else Inr (slice_to_minus8 title_dirty))"

definition extract_review_text_dc :: "'c node \<Rightarrow> error + 'c list list" where
  "extract_review_text_dc soup =
     (let reviews = find_all (Some ''p'') ''audience-reviews__review'' True soup
      in if reviews = [] then Inl (AttributeError ''No review text was found in the content.'')
         else Inr (map get_text reviews))"

definition extract_review_scores_dc :: "'c node \<Rightarrow> error + rat list" where
  "extract_review_scores_dc soup =
     (let star_displays = find_all None ''star-display'' True soup
      in if star_displays = []
         then Inl (AttributeError ''No star-display tags were found in the content.'')
         else comprehension calculate_score star_displays)"

definition RottenTomatoesScraper_dc :: "(string \<Rightarrow> 'c node) \<Rightarrow> string \<Rightarrow> error + 'c scraper_dc" where
  "RottenTomatoesScraper_dc BeautifulSoup content_bytes =
     (let soup = BeautifulSoup content_bytes
      in (case extract_review_scores_dc soup of
            Inl e \<Rightarrow> Inl e
          | Inr scores \<Rightarrow>
              (case extract_review_text_dc soup of
                 Inl e \<Rightarrow> Inl e
               | Inr texts \<Rightarrow>
                   (case extract_movie_title_dc soup of
                      Inl e \<Rightarrow> Inl e
                    | Inr t \<Rightarrow>
                        Inr \<lparr>review_scores = scores, review_text = texts, title = t,
                             titles = map (\<lambda>review. t) scores\<rparr>))))"

definition to_dict_dc :: "'c scraper_dc \<Rightarrow> (string \<times> 'c column) list" where
  "to_dict_dc self =
     [(''Title'', Strings (titles self)),
      (''Review Text'', Strings (review_text self)),
      (''Score'', Numbers (review_scores self))]"

section \<open>\<open>data_collection/top_100_movie_reviews.py\<close>\<close>

text \<open>A header dictionary, in insertion order.\<close>

type_synonym headers = "(string \<times> string) list"

definition safari_header :: headers where
  "safari_header =
     [(''User-Agent'', ''Mozilla/5.0 (Macintosh; Intel Mac OS X 10_15_4) AppleWebKit/605.1.15 (KHTML, like Gecko) Version/13.1 Safari/605.1.15''),
      (''Accept'', ''text/html,application/xhtml+xml,application/xml;q=0.9,*/*;q=0.8''),
      (''Accept-Charset'', ''ISO-8859-1,utf-8;q=0.7,*;q=0.3''),
      (''Accept-Encoding'', ''none''),
      (''Accept-Language'', ''en-CA,en;q=0.8''),
      (''Connection'', ''keep-alive'')]"

definition firefox_header :: headers where
  "firefox_header =
     [(''User-Agent'', ''Mozilla/5.0 (Macintosh; Intel Mac OS X 10.6; rv:16.0) Gecko/20100101 Firefox/16.0''),
      (''Accept'', ''text/html,application/xhtml+xml,application/xml;q=0.9,*/*;q=0.8''),
      (''Accept-Charset'', ''ISO-8859-1,utf-8;q=0.7,*;q=0.3''),
      (''Accept-Encoding'', ''none''),
      (''Accept-Language'', ''en-CA,en;q=0.8''),
      (''Connection'', ''keep-alive'')]"

text \<open>
  The network, as the program meets it. The batches a run issues are numbered from 0
  in the order of issue. \<open>reply k h u\<close> is what the request for URL \<open>u\<close> under the
  headers \<open>h\<close> meets in batch \<open>k\<close>: a response, or \<open>None\<close> for a failure of
  the transport. \<open>completion k n\<close> is the order in which the \<open>n\<close> requests of batch
  \<open>k\<close> complete, as a list of their positions in the batch.
\<close>

record world =
  reply :: "nat \<Rightarrow> headers \<Rightarrow> string \<Rightarrow> response option"
  completion :: "nat \<Rightarrow> nat \<Rightarrow> nat list"

text \<open>
  Modelled from the spec: \<open>grequests.map\<close> is a library function whose code is not
  part of the repository. The spec asks that results be collected into slots addressed
  by request index, not in order of completion. Each request has a slot, empty at first;
  a request that completes stores its response in its own slot, and the result is the
  slots in the order of the requests. The handler of \<open>get_responses\<close> prints and
  returns \<open>None\<close>, so a request that failed leaves \<open>None\<close> in its slot.
\<close>

definition grequests_map :: "(string \<Rightarrow> response option) \<Rightarrow> nat list \<Rightarrow> string list \<Rightarrow> response option list" where
  "grequests_map send order urls =
     foldl (\<lambda>slots i. if i < length urls then slots[i := send (urls ! i)] else slots)
       (replicate (length urls) None) order"

text \<open>\<open>int(td.total_seconds())\<close> of a \<open>timedelta\<close> of \<open>us\<close> microseconds: truncation towards zero.\<close>

definition int_total_seconds :: "int \<Rightarrow> int" where
  "int_total_seconds us = (if 0 \<le> us then us div 1000000 else - ((- us) div 1000000))"

text \<open>
  The \<open>for response in responses\<close> loop of \<open>get_responses\<close>, up to the point where it
  is left: it ends normally with the accumulated time, or it meets a 403, or reading
  \<open>response.elapsed\<close> raises because the response is \<open>None\<close>.
\<close>

datatype scan_result = Finished int | Forbidden | Raised error

fun scan_responses :: "response option list \<Rightarrow> int \<Rightarrow> scan_result" where
  "scan_responses [] time = Finished time"
| "scan_responses (None # rs) time =
     Raised (AttributeError ''NoneType object has no attribute elapsed'')"
| "scan_responses (Some response # rs) time =
     (let time' = time + int_total_seconds (elapsed response)
      in if status_code response = 403 then Forbidden else scan_responses rs time')"

text \<open>
  \<open>get_responses\<close>. The second component of the result is the log of the batches
  issued so far, each with the headers and the URLs it was issued for; the number of
  a batch is its position in the log. What the loop does at a 403 (the recursive call
  with \<open>firefox_header\<close> and \<open>retry=True\<close>, or the \<open>HTTPError\<close>) is the
  \<open>Forbidden\<close> branch here.
\<close>

function get_responses ::
  "world \<Rightarrow> (headers \<times> string list) list \<Rightarrow> string list \<Rightarrow> headers option \<Rightarrow> bool
     \<Rightarrow> (error + response option list) \<times> (headers \<times> string list) list" where
  "get_responses w issued urls hdrs retry =
     (let hdrs' = (case hdrs of None \<Rightarrow> safari_header
                   | Some h \<Rightarrow> if h = [] then safari_header else h);
          responses = grequests_map (reply w (length issued) hdrs') (completion w (length issued) (length urls)) urls;
          issued' = issued @ [(hdrs', urls)]
      in (case scan_responses responses 0 of
            Raised e \<Rightarrow> (Inl e, issued')
          | Forbidden \<Rightarrow>
              if \<not> retry then get_responses w issued' urls (Some firefox_header) True
              else (Inl (HTTPError ''Received 403 error again: check size, headers, and URL's''), issued')
          | Finished time \<Rightarrow>
              if responses = [] then (Inl (AttributeError ''No responses were recieved''), issued')
              else (Inr responses, issued')))"
  by pat_completeness auto
termination
  by (relation "measure (\<lambda>(w, issued, urls, hdrs, retry). if retry then 0 else 1)") auto

declare get_responses.simps [simp del]

text \<open>
  The table that \<open>generate_df\<close> returns. \<open>DataFrame.from_dict\<close> (pandas) raises
  \<open>ValueError\<close> when the lists of the dictionary differ in length.
\<close>

record 'c dataframe =
  col_Title :: "'c list list"
  col_Review_Text :: "'c list list"
  col_Review_Score :: "rat list"

definition DataFrame_from_dict :: "'c list list \<Rightarrow> 'c list list \<Rightarrow> rat list \<Rightarrow> error + 'c dataframe" where
  "DataFrame_from_dict ts xs ss =
     (if length ts = length xs \<and> length xs = length ss
      then Inr \<lparr>col_Title = ts, col_Review_Text = xs, col_Review_Score = ss\<rparr>
      else Inl (ValueError ''All arrays must be of the same length''))"

text \<open>
  The loop of \<open>generate_df\<close> over the responses, with the three lists it extends.
  There is no \<open>try\<close> around the constructor: an exception leaves the loop and the
  function. \<open>response.content\<close> of \<open>None\<close> raises \<open>AttributeError\<close>.
\<close>

fun generate_df_loop ::
  "(string \<Rightarrow> 'c node) \<Rightarrow> response option list \<Rightarrow> 'c list list \<times> 'c list list \<times> rat list
     \<Rightarrow> error + ('c list list \<times> 'c list list \<times> rat list)" where
  "generate_df_loop BeautifulSoup [] acc = Inr acc"
| "generate_df_loop BeautifulSoup (None # rs) acc =
     Inl (AttributeError ''NoneType object has no attribute content'')"
| "generate_df_loop BeautifulSoup (Some response # rs) (ts, xs, ss) =
     (case RottenTomatoesScraper_dc BeautifulSoup (content response) of
        Inl e \<Rightarrow> Inl e
      | Inr movie_data \<Rightarrow>
          generate_df_loop BeautifulSoup rs
            (ts @ titles movie_data, xs @ review_text movie_data, ss @ review_scores movie_data))"

definition generate_df :: "(string \<Rightarrow> 'c node) \<Rightarrow> response option list \<Rightarrow> error + 'c dataframe" where
  "generate_df BeautifulSoup responses =
     (case generate_df_loop BeautifulSoup responses ([], [], []) of
        Inl e \<Rightarrow> Inl e
      | Inr (ts, xs, ss) \<Rightarrow> DataFrame_from_dict ts xs ss)"

section \<open>Example documents, responses and networks\<close>

text \<open>
  Concrete inputs on which the definitions above are evaluated: star markers and rating
  widgets, review paragraphs, headings, whole pages, a parser that maps a body to one
  of these pages, responses, and three networks.
\<close>

definition filled_star :: "char node" where
  "filled_star = Tag ''span'' (Some [''star-display__filled'']) []"

definition half_star :: "char node" where
  "half_star = Tag ''span'' (Some [''star-display__half'']) []"

definition empty_star :: "char node" where
  "empty_star = Tag ''span'' (Some [''star-display__empty'']) []"

definition widget_4 :: "char node" where
  "widget_4 = Tag ''span'' (Some [''star-display''])
     [filled_star, filled_star, filled_star, filled_star, empty_star]"

definition widget_3_5 :: "char node" where
  "widget_3_5 = Tag ''span'' (Some [''star-display''])
     [filled_star, filled_star, filled_star, half_star, empty_star]"

definition widget_6 :: "char node" where
  "widget_6 = Tag ''span'' (Some [''star-display''])
     [filled_star, filled_star, filled_star, filled_star, filled_star, filled_star]"

definition classless_tag :: "char node" where
  "classless_tag = Tag ''span'' None [NavigableString ''4 stars'']"

definition review_good :: "char node" where
  "review_good = Tag ''p'' (Some [''audience-reviews__review'']) [NavigableString ''Good'']"

definition review_fine :: "char node" where
  "review_fine = Tag ''p'' (Some [''audience-reviews__review'']) [NavigableString ''Fine'']"

definition heading_foo :: "char node" where
  "heading_foo = Tag ''h2'' (Some [''panel-heading'']) [NavigableString ''Foo Reviews'']"

definition heading_suffix_only :: "char node" where
  "heading_suffix_only = Tag ''h2'' (Some [''panel-heading'']) [NavigableString '' Reviews'']"

definition heading_short :: "char node" where
  "heading_short = Tag ''h2'' (Some [''panel-heading'']) [NavigableString ''Up'']"

definition page_foo :: "char node" where
  "page_foo = Tag ''[document]'' None
     [Tag ''html'' None
        [heading_foo, Tag ''div'' None [widget_4, review_good], Tag ''div'' None [widget_3_5, review_fine]]]"

definition page_misaligned :: "char node" where
  "page_misaligned = Tag ''[document]'' None
     [Tag ''html'' None
        [heading_foo, Tag ''div'' None [widget_4, review_good],
         Tag ''div'' None [widget_3_5, review_fine], Tag ''div'' None [widget_4]]]"

definition page_no_ratings :: "char node" where
  "page_no_ratings = Tag ''[document]'' None [Tag ''html'' None [heading_foo, review_good]]"

definition page_no_title :: "char node" where
  "page_no_title = Tag ''[document]'' None
     [Tag ''html'' None [Tag ''div'' None [widget_4, review_good]]]"

definition page_suffix_only :: "char node" where
  "page_suffix_only = Tag ''[document]'' None
     [Tag ''html'' None [heading_suffix_only, Tag ''div'' None [widget_4, review_good]]]"

definition page_short :: "char node" where
  "page_short = Tag ''[document]'' None
     [Tag ''html'' None [heading_short, Tag ''div'' None [widget_4, review_good]]]"

definition example_parser :: "string \<Rightarrow> char node" where
  "example_parser b =
     (if b = ''foo'' then page_foo
      else if b = ''misaligned'' then page_misaligned
      else if b = ''no title'' then page_no_title
      else if b = ''suffix only'' then page_suffix_only
      else if b = ''short'' then page_short
      else page_no_ratings)"

definition ok_response :: "string \<Rightarrow> response" where
  "ok_response b = \<lparr>status_code = 200, elapsed = 1500000, content = b\<rparr>"

definition forbidden_response :: response where
  "forbidden_response = \<lparr>status_code = 403, elapsed = 200000, content = ''Forbidden''\<rparr>"

definition example_requests_get :: "string \<Rightarrow> error + response" where
  "example_requests_get source = Inr (ok_response source)"

definition order_in_turn :: "nat \<Rightarrow> nat \<Rightarrow> nat list" where
  "order_in_turn k n = [0..<n]"

definition order_B_last :: "nat \<Rightarrow> nat \<Rightarrow> nat list" where
  "order_B_last k n = filter (\<lambda>i. i \<noteq> 1) [0..<n] @ filter (\<lambda>i. i = 1) [0..<n]"

definition reply_failure_then_403 :: "nat \<Rightarrow> headers \<Rightarrow> string \<Rightarrow> response option" where
  "reply_failure_then_403 k h u = (if u = ''A'' then None else Some forbidden_response)"

definition world_failure_then_403 :: world where
  "world_failure_then_403 = \<lparr>reply = reply_failure_then_403, completion = order_in_turn\<rparr>"

definition reply_down :: "nat \<Rightarrow> headers \<Rightarrow> string \<Rightarrow> response option" where
  "reply_down k h u = None"

definition world_down :: world where
  "world_down = \<lparr>reply = reply_down, completion = order_in_turn\<rparr>"

definition reply_ok :: "nat \<Rightarrow> headers \<Rightarrow> string \<Rightarrow> response option" where
  "reply_ok k h u = Some (ok_response u)"

definition world_B_slow :: world where
  "world_B_slow = \<lparr>reply = reply_ok, completion = order_B_last\<rparr>"

section \<open>Properties of the scraper\<close>

lemmas ex_defs =
  filled_star_def half_star_def empty_star_def widget_4_def widget_3_5_def widget_6_def
  classless_tag_def review_good_def review_fine_def heading_foo_def
  heading_suffix_only_def heading_short_def page_foo_def page_misaligned_def
  page_no_ratings_def page_no_title_def page_suffix_only_def page_short_def

subsection \<open>List comprehensions\<close>

lemma comprehension_length:
  "comprehension f xs = Inr ys \<Longrightarrow> length ys = length xs"
  by (induction xs arbitrary: ys) (auto split: sum.splits)

lemma comprehension_Inl:
  "comprehension f xs = Inl e \<Longrightarrow> \<exists>x \<in> set xs. f x = Inl e"
  by (induction xs) (auto split: sum.splits)

subsection \<open>\<open>calculate_score\<close>\<close>

text \<open>
  What \<open>calculate_score\<close> does on a tag whose first class is \<open>star-display\<close>, on a
  string and on a tag whose first class is another one.
\<close>

lemma calculate_score_widget:
  "calculate_score (Tag n (Some (''star-display'' # cs)) ks) =
     Inr (of_nat (length (filter (matches None ''star-display__filled'') ks))
          + of_nat (length (filter (matches None ''star-display__half'') ks)) * (1 / 2))"
  by (simp add: find_all_def Let_def)

lemma calculate_score_wrong_type:
  "calculate_score (NavigableString s) =
     Inl (TypeError ''Input must be of type bs4.element.Tag'')"
  by simp

lemma calculate_score_wrong_class:
  "c \<noteq> ''star-display'' \<Longrightarrow>
   calculate_score (Tag n (Some (c # cs)) ks) =
     Inl (TypeError ''Tag must be of class star-display'')"
  by simp

lemma calculate_score_Inr:
  assumes "calculate_score t = Inr s"
  obtains n cs ks where "t = Tag n (Some (''star-display'' # cs)) ks"
    and "s = of_nat (length (filter (matches None ''star-display__filled'') ks))
          + of_nat (length (filter (matches None ''star-display__half'') ks)) * (1 / 2)"
  using assms
  by (cases t rule: calculate_score.cases) (auto simp: find_all_def Let_def split: if_splits)

lemma widget_3_5_eval: "calculate_score widget_3_5 = Inr (7 / 2)"
  by (simp add: widget_3_5_def filled_star_def half_star_def empty_star_def find_all_def)

text \<open>
  C4: the code at the failing input. A tag that has no class attribute is not a rating
  widget, and \<open>calculate_score\<close> raises \<open>KeyError\<close> on it, not the \<open>TypeError\<close> that
  its docstring announces for a tag that is not of class \<open>star-display\<close>.
\<close>

theorem calculate_score_classless_tag:
  "calculate_score classless_tag = Inl (KeyError ''class'') \<and>
   calculate_score classless_tag \<noteq> Inl (TypeError ''Tag must be of class star-display'')"
  by (simp add: classless_tag_def)

text \<open>
  C8, as the spec states it, fails: a rating widget with six filled markers has the
  score 6, above the cap of 5.
\<close>

theorem calculate_score_above_five_counterexample:
  "calculate_score widget_6 = Inr 6 \<and> \<not> (6 :: rat) \<le> 5"
  by (simp add: widget_6_def filled_star_def find_all_def)

text \<open>
  C8 (amended). Every score that \<open>calculate_score\<close> returns is not negative and is a
  multiple of 0.5. It is not capped at 5: it is at most one and a half times the
  number of direct children of the widget.
\<close>

theorem calculate_score_range:
  "calculate_score t = Inr s \<Longrightarrow>
     0 \<le> s \<and> (\<exists>k::nat. s = of_nat k * (1 / 2)) \<and>
     s \<le> 3 / 2 * of_nat (length (contents t))"
proof -
  assume a: "calculate_score t = Inr s"
  then obtain n cs ks where t: "t = Tag n (Some (''star-display'' # cs)) ks"
    and s: "s = of_nat (length (filter (matches None ''star-display__filled'') ks))
          + of_nat (length (filter (matches None ''star-display__half'') ks)) * (1 / 2)"
    by (rule calculate_score_Inr)
  define F where
    "F = length (filter (matches None ''star-display__filled'' :: 'a node \<Rightarrow> bool) ks)"
  define H where
    "H = length (filter (matches None ''star-display__half'' :: 'a node \<Rightarrow> bool) ks)"
  have F: "F \<le> length ks" and H: "H \<le> length ks" by (simp_all add: F_def H_def)
  have s': "s = of_nat F + of_nat H * (1 / 2)" using s by (simp add: F_def H_def)
  have 1: "0 \<le> s" by (simp add: s')
  have 2: "s = of_nat (2 * F + H) * (1 / 2)" by (simp add: s' field_simps)
  have "(of_nat F :: rat) \<le> of_nat (length ks)" "(of_nat H :: rat) \<le> of_nat (length ks)"
    using F H by simp_all
  then have 3: "s \<le> 3 / 2 * of_nat (length (contents t))" by (simp add: s' t)
  from 1 2 3 show ?thesis by blast
qed

theorem calculate_score_range_witness:
  "calculate_score widget_3_5 = Inr (7 / 2) \<and> (0 :: rat) \<le> 7 / 2 \<and>
   (\<exists>k::nat. (7 / 2 :: rat) = of_nat k * (1 / 2)) \<and>
   (7 / 2 :: rat) \<le> 3 / 2 * of_nat (length (contents widget_3_5))"
  using calculate_score_range [OF widget_3_5_eval] widget_3_5_eval by simp

subsection \<open>\<open>extract_movie_title\<close>\<close>

lemma suffix_only_heading:
  "find_first ''h2'' ''panel-heading'' page_suffix_only = Some heading_suffix_only"
  by (simp add: find_first_def find_all_def ex_defs)

lemma foo_heading: "find_first ''h2'' ''panel-heading'' page_foo = Some heading_foo"
  by (simp add: find_first_def find_all_def ex_defs)

text \<open>
  C10. When the title node has text that is not empty and has at most 8 characters,
  title extraction succeeds in both copies of the class and returns the empty string:
  the emptiness test is on the raw text, before the last 8 characters are cut off.
\<close>

theorem extract_movie_title_short_text:
  assumes "find_first ''h2'' ''panel-heading'' soup = Some h"
    and "get_text h \<noteq> []" and "length (get_text h) \<le> 8"
  shows "extract_movie_title soup = Inr [] \<and> extract_movie_title_dc soup = Inr []"
  using assms
  by (simp add: extract_movie_title_def extract_movie_title_dc_def slice_to_minus8_def Let_def)

theorem extract_movie_title_short_text_witness:
  "find_first ''h2'' ''panel-heading'' page_suffix_only = Some heading_suffix_only \<and>
   get_text heading_suffix_only = '' Reviews'' \<and>
   extract_movie_title page_suffix_only = Inr [] \<and>
   extract_movie_title_dc page_suffix_only = Inr []"
proof -
  have t: "get_text heading_suffix_only = '' Reviews''"
    by (simp add: heading_suffix_only_def)
  have 1: "get_text heading_suffix_only \<noteq> []" by (simp add: t)
  have 2: "length (get_text heading_suffix_only) \<le> 8" by (simp add: t)
  show ?thesis
    using extract_movie_title_short_text [OF suffix_only_heading 1 2] suffix_only_heading t
    by simp
qed

text \<open>
  C6, as the spec states it, fails twice. The title node of \<open>page_short\<close> has the text
  \<open>Up\<close>, which is empty once the last 8 characters are cut off, and extraction returns
  the empty title instead of failing. \<open>page_no_title\<close> has no title node, and
  extraction fails with the \<open>AttributeError\<close> of reading \<open>.text\<close> of \<open>None\<close>, not
  with \<open>NotFoundError("movie title")\<close>.
\<close>

theorem extract_movie_title_counterexample:
  "find_first ''h2'' ''panel-heading'' page_short = Some heading_short \<and>
   slice_to_minus8 (get_text heading_short) = [] \<and>
   extract_movie_title page_short = Inr [] \<and>
   find_first ''h2'' ''panel-heading'' page_no_title = None \<and>
   extract_movie_title page_no_title =
     Inl (AttributeError ''NoneType object has no attribute text'')"
  by (simp add: extract_movie_title_def find_first_def find_all_def slice_to_minus8_def ex_defs)

text \<open>
  C6 (amended). For every document that has a title node, title extraction fails with
  \<open>NotFoundError("movie title")\<close> exactly when the raw text of the node is empty (in
  \<open>scraper.py\<close> the failure is \<open>AttributeError("No movie title was found in the
  content.")\<close>, under the same condition); otherwise the returned title is the text of
  the node without its last 8 characters, which is the empty string when the text has
  at most 8 characters.
\<close>

theorem extract_movie_title_raw_text_check:
  assumes "find_first ''h2'' ''panel-heading'' soup = Some h"
  shows "(extract_movie_title soup = Inl (NotFoundError ''movie title'')
            \<longleftrightarrow> get_text h = []) \<and>
         (extract_movie_title_dc soup
            = Inl (AttributeError ''No movie title was found in the content.'')
            \<longleftrightarrow> get_text h = []) \<and>
         (get_text h \<noteq> [] \<longrightarrow>
            extract_movie_title soup = Inr (take (length (get_text h) - 8) (get_text h)) \<and>
            extract_movie_title_dc soup = Inr (take (length (get_text h) - 8) (get_text h)))"
  using assms
  by (simp add: extract_movie_title_def extract_movie_title_dc_def slice_to_minus8_def Let_def)

theorem extract_movie_title_raw_text_check_witness:
  "find_first ''h2'' ''panel-heading'' page_foo = Some heading_foo \<and>
   get_text heading_foo = ''Foo Reviews'' \<and>
   extract_movie_title page_foo \<noteq> Inl (NotFoundError ''movie title'') \<and>
   extract_movie_title page_foo = Inr ''Foo'' \<and>
   extract_movie_title_dc page_foo = Inr ''Foo''"
proof -
  have t: "get_text heading_foo = ''Foo Reviews''" by (simp add: heading_foo_def)
  show ?thesis
    using extract_movie_title_raw_text_check [OF foo_heading] foo_heading t by simp
qed

subsection \<open>The constructor of \<open>scraper.py\<close>\<close>

lemma calculate_score_not_NotFoundError:
  "calculate_score t \<noteq> Inl (NotFoundError m)"
  by (cases t rule: calculate_score.cases) (auto simp: Let_def)

lemma extract_review_scores_dc_Inr:
  "extract_review_scores_dc soup = Inr ss \<Longrightarrow>
     length ss = length (find_all None ''star-display'' True soup)"
  by (auto simp: extract_review_scores_dc_def Let_def comprehension_length split: if_splits)

lemma extract_review_scores_dc_Inl:
  "extract_review_scores_dc soup \<noteq> Inl (NotFoundError m)"
proof
  assume a: "extract_review_scores_dc soup = Inl (NotFoundError m)"
  then have "comprehension calculate_score (find_all None ''star-display'' True soup)
               = Inl (NotFoundError m)"
    by (simp add: extract_review_scores_dc_def Let_def split: if_splits)
  from comprehension_Inl [OF this]
  obtain x :: "'a node" where "calculate_score x = Inl (NotFoundError m)"
    by blast
  then show False by (simp add: calculate_score_not_NotFoundError)
qed

lemma extract_review_text_dc_Inr:
  "extract_review_text_dc soup = Inr xs \<Longrightarrow>
     xs = map get_text (find_all (Some ''p'') ''audience-reviews__review'' True soup)"
  by (auto simp: extract_review_text_dc_def Let_def split: if_splits)

lemma extract_review_text_dc_Inl:
  "extract_review_text_dc soup \<noteq> Inl (NotFoundError m)"
  by (simp add: extract_review_text_dc_def Let_def)

lemma extract_movie_title_dc_Inl:
  "extract_movie_title_dc soup \<noteq> Inl (NotFoundError m)"
  by (simp add: extract_movie_title_dc_def Let_def split: option.splits)

lemma RottenTomatoesScraper_dc_Inr:
  assumes "RottenTomatoesScraper_dc bs c = Inr s"
  shows "extract_review_scores_dc (bs c) = Inr (review_scores s)"
    and "extract_review_text_dc (bs c) = Inr (review_text s)"
    and "extract_movie_title_dc (bs c) = Inr (title s)"
    and "titles s = map (\<lambda>review. title s) (review_scores s)"
  using assms
  by (auto simp: RottenTomatoesScraper_dc_def Let_def split: sum.splits)

lemma RottenTomatoesScraper_dc_Inl:
  "RottenTomatoesScraper_dc bs c \<noteq> Inl (NotFoundError m)"
  by (auto simp: RottenTomatoesScraper_dc_def Let_def extract_review_scores_dc_Inl
      extract_review_text_dc_Inl extract_movie_title_dc_Inl split: sum.splits)

lemma misaligned_eval:
  "RottenTomatoesScraper_dc example_parser ''misaligned'' =
     Inr \<lparr>review_scores = [4, 7 / 2, 4], review_text = [''Good'', ''Fine''], title = ''Foo'',
          titles = [''Foo'', ''Foo'', ''Foo'']\<rparr>"
  by (simp add: RottenTomatoesScraper_dc_def example_parser_def extract_review_scores_dc_def
      extract_review_text_dc_def extract_movie_title_dc_def find_all_def find_first_def
      slice_to_minus8_def ex_defs)

lemma misaligned_counts:
  "length (find_all None ''star-display'' True (example_parser ''misaligned'')) = 3"
  "length (find_all (Some ''p'') ''audience-reviews__review'' True
             (example_parser ''misaligned'')) = 2"
  by (simp_all add: example_parser_def find_all_def ex_defs)

text \<open>
  C2, as the spec states it, fails: \<open>page_misaligned\<close> has three rating widgets and two
  review paragraphs, and the constructor returns an object with three scores and two
  texts instead of raising.
\<close>

theorem constructor_misaligned_counterexample:
  "length (find_all None ''star-display'' True (example_parser ''misaligned'')) = 3 \<and>
   length (find_all (Some ''p'') ''audience-reviews__review'' True
             (example_parser ''misaligned'')) = 2 \<and>
   RottenTomatoesScraper_dc example_parser ''misaligned'' \<noteq>
     Inl (NotFoundError ''aligned reviews'') \<and>
   RottenTomatoesScraper_dc example_parser ''misaligned'' =
     Inr \<lparr>review_scores = [4, 7 / 2, 4], review_text = [''Good'', ''Fine''], title = ''Foo'',
          titles = [''Foo'', ''Foo'', ''Foo'']\<rparr>"
  by (simp add: misaligned_eval misaligned_counts)

text \<open>
  C2 (amended). For every document in which the number of rating widgets differs from
  the number of review paragraphs, the constructor never raises
  \<open>NotFoundError("aligned reviews")\<close>: it makes no alignment check. Whenever it
  succeeds, the scores are one per rating widget and the texts one per review paragraph,
  neither list truncated or padded, so the two lists differ in length.
\<close>

theorem constructor_keeps_unequal_columns:
  assumes "length (find_all None ''star-display'' True (bs c))
             \<noteq> length (find_all (Some ''p'') ''audience-reviews__review'' True (bs c))"
  shows "RottenTomatoesScraper_dc bs c \<noteq> Inl (NotFoundError ''aligned reviews'') \<and>
         (RottenTomatoesScraper_dc bs c = Inr s \<longrightarrow>
            length (review_scores s) = length (find_all None ''star-display'' True (bs c)) \<and>
            length (review_text s)
              = length (find_all (Some ''p'') ''audience-reviews__review'' True (bs c)) \<and>
            length (review_scores s) \<noteq> length (review_text s))"
proof (intro conjI impI)
  show "RottenTomatoesScraper_dc bs c \<noteq> Inl (NotFoundError ''aligned reviews'')"
    by (rule RottenTomatoesScraper_dc_Inl)
next
  assume a: "RottenTomatoesScraper_dc bs c = Inr s"
  show 1: "length (review_scores s) = length (find_all None ''star-display'' True (bs c))"
    using RottenTomatoesScraper_dc_Inr(1)[OF a] by (rule extract_review_scores_dc_Inr)
  show 2: "length (review_text s)
              = length (find_all (Some ''p'') ''audience-reviews__review'' True (bs c))"
    using extract_review_text_dc_Inr[OF RottenTomatoesScraper_dc_Inr(2)[OF a]] by simp
  show "length (review_scores s) \<noteq> length (review_text s)"
    using 1 2 assms by simp
qed

theorem constructor_keeps_unequal_columns_witness:
  "length (find_all None ''star-display'' True (example_parser ''misaligned''))
     \<noteq> length (find_all (Some ''p'') ''audience-reviews__review'' True
                  (example_parser ''misaligned'')) \<and>
   RottenTomatoesScraper_dc example_parser ''misaligned'' =
     Inr \<lparr>review_scores = [4, 7 / 2, 4], review_text = [''Good'', ''Fine''], title = ''Foo'',
          titles = [''Foo'', ''Foo'', ''Foo'']\<rparr> \<and>
   length (review_scores \<lparr>review_scores = [4, 7 / 2, 4], review_text = [''Good'', ''Fine''],
          title = ''Foo'', titles = [''Foo'', ''Foo'', ''Foo'']\<rparr>) = 3 \<and>
   length (review_text \<lparr>review_scores = [4, 7 / 2, 4], review_text = [''Good'', ''Fine''],
          title = ''Foo'', titles = [''Foo'', ''Foo'', ''Foo'']\<rparr>) = 2"
proof -
  have h: "length (find_all None ''star-display'' True (example_parser ''misaligned''))
             \<noteq> length (find_all (Some ''p'') ''audience-reviews__review'' True
                          (example_parser ''misaligned''))"
    by (simp add: misaligned_counts)
  show ?thesis
    using constructor_keeps_unequal_columns [of example_parser "''misaligned''", OF h]
      h misaligned_eval
    by simp
qed

lemma misaligned_eval_v1:
  "RottenTomatoesScraper example_requests_get example_parser ''misaligned'' =
     Inr \<lparr>review_scores = [4, 7 / 2, 4], review_text = [''Good'', ''Fine''], title = ''Foo''\<rparr>"
  by (simp add: RottenTomatoesScraper_def fetch_src_content_def example_requests_get_def
      raise_for_status_def ok_response_def example_parser_def extract_review_scores_def
      extract_review_text_def extract_movie_title_def find_all_def find_first_def
      slice_to_minus8_def ex_defs)

text \<open>
  C9. For every document on which the constructor succeeds, the Title column of
  \<open>to_dict\<close> is the extracted title repeated once per extracted score, so it has as
  many entries as the column of the scores (\<open>Scores\<close> in \<open>RottenTomatoesScraper.py\<close>,
  \<open>Score\<close> in \<open>scraper.py\<close>), whatever the number of review texts is.
\<close>

theorem to_dict_title_per_score:
  "(RottenTomatoesScraper requests_get bs source = Inr s \<longrightarrow>
      map_of (to_dict s) ''Title''
        = Some (Strings (replicate (length (review_scores s)) (title s))) \<and>
      map_of (to_dict s) ''Scores'' = Some (Numbers (review_scores s)) \<and>
      map_option column_length (map_of (to_dict s) ''Title'')
        = map_option column_length (map_of (to_dict s) ''Scores'')) \<and>
   (RottenTomatoesScraper_dc bs c = Inr s' \<longrightarrow>
      map_of (to_dict_dc s') ''Title''
        = Some (Strings (replicate (length (review_scores s')) (title s'))) \<and>
      map_of (to_dict_dc s') ''Score'' = Some (Numbers (review_scores s')) \<and>
      map_option column_length (map_of (to_dict_dc s') ''Title'')
        = map_option column_length (map_of (to_dict_dc s') ''Score''))"
proof (intro conjI impI)
  show "map_of (to_dict s) ''Title''
          = Some (Strings (replicate (length (review_scores s)) (title s)))"
    by (simp add: to_dict_def Let_def map_replicate_const)
  show "map_of (to_dict s) ''Scores'' = Some (Numbers (review_scores s))"
    by (simp add: to_dict_def Let_def)
  show "map_option column_length (map_of (to_dict s) ''Title'')
          = map_option column_length (map_of (to_dict s) ''Scores'')"
    by (simp add: to_dict_def Let_def)
next
  assume a: "RottenTomatoesScraper_dc bs c = Inr s'"
  show "map_of (to_dict_dc s') ''Title''
          = Some (Strings (replicate (length (review_scores s')) (title s')))"
    using RottenTomatoesScraper_dc_Inr(4) [OF a]
    by (simp add: to_dict_dc_def map_replicate_const)
  show "map_of (to_dict_dc s') ''Score'' = Some (Numbers (review_scores s'))"
    by (simp add: to_dict_dc_def)
  show "map_option column_length (map_of (to_dict_dc s') ''Title'')
          = map_option column_length (map_of (to_dict_dc s') ''Score'')"
    using RottenTomatoesScraper_dc_Inr(4) [OF a] by (simp add: to_dict_dc_def)
qed

theorem to_dict_title_per_score_witness:
  "RottenTomatoesScraper example_requests_get example_parser ''misaligned'' =
     Inr \<lparr>review_scores = [4, 7 / 2, 4], review_text = [''Good'', ''Fine''], title = ''Foo''\<rparr> \<and>
   map_of (to_dict \<lparr>review_scores = [4, 7 / 2, 4], review_text = [''Good'', ''Fine''],
                    title = ''Foo''\<rparr>) ''Title''
     = Some (Strings [''Foo'', ''Foo'', ''Foo'']) \<and>
   RottenTomatoesScraper_dc example_parser ''misaligned'' =
     Inr \<lparr>review_scores = [4, 7 / 2, 4], review_text = [''Good'', ''Fine''], title = ''Foo'',
          titles = [''Foo'', ''Foo'', ''Foo'']\<rparr> \<and>
   map_of (to_dict_dc \<lparr>review_scores = [4, 7 / 2, 4], review_text = [''Good'', ''Fine''],
                       title = ''Foo'', titles = [''Foo'', ''Foo'', ''Foo'']\<rparr>) ''Title''
     = Some (Strings [''Foo'', ''Foo'', ''Foo''])"
  using to_dict_title_per_score [where requests_get = example_requests_get
      and bs = example_parser and source = "''misaligned''" and c = "''misaligned''"
      and s = "\<lparr>review_scores = [4, 7 / 2, 4], review_text = [''Good'', ''Fine''],
                title = ''Foo''\<rparr>"
      and s' = "\<lparr>review_scores = [4, 7 / 2, 4], review_text = [''Good'', ''Fine''],
                 title = ''Foo'', titles = [''Foo'', ''Foo'', ''Foo'']\<rparr>"]
    misaligned_eval_v1 misaligned_eval
  by simp

section \<open>Properties of the batch fetcher\<close>

lemma grequests_map_slots:
  "length (grequests_map send order urls) = length urls \<and>
   (\<forall>i < length urls. grequests_map send order urls ! i = None \<or>
                        grequests_map send order urls ! i = send (urls ! i))"
proof -
  define step where
    "step = (\<lambda>slots i. if i < length urls then slots[i := send (urls ! i)] else slots)"
  have inv: "length (foldl step slots order) = length urls \<and>
        (\<forall>i < length urls. foldl step slots order ! i = None \<or>
                             foldl step slots order ! i = send (urls ! i))"
    if "length slots = length urls"
      and "\<forall>i < length urls. slots ! i = None \<or> slots ! i = send (urls ! i)"
    for slots
    using that
  proof (induction order arbitrary: slots)
    case Nil
    then show ?case by simp
  next
    case (Cons j order)
    have 1: "length (step slots j) = length urls"
      using Cons.prems(1) by (simp add: step_def)
    have 2: "\<forall>i < length urls. step slots j ! i = None \<or> step slots j ! i = send (urls ! i)"
      using Cons.prems by (auto simp: step_def nth_list_update)
    show ?case using Cons.IH [OF 1 2] by simp
  qed
  show ?thesis
    unfolding grequests_map_def step_def [symmetric]
    by (rule inv) simp_all
qed

lemma scan_responses_Finished:
  "scan_responses rs t = Finished t' \<Longrightarrow> None \<notin> set rs"
  by (induction rs t rule: scan_responses.induct) (auto simp: Let_def split: if_splits)

lemma grequests_map_Finished:
  assumes "scan_responses (grequests_map send order urls) t = Finished t'"
  shows "grequests_map send order urls = map send urls"
proof (rule nth_equalityI)
  show "length (grequests_map send order urls) = length (map send urls)"
    using grequests_map_slots [of send order urls] by simp
next
  fix i assume "i < length (grequests_map send order urls)"
  then have i: "i < length urls" using grequests_map_slots [of send order urls] by simp
  then have "grequests_map send order urls ! i \<in> set (grequests_map send order urls)"
    using grequests_map_slots [of send order urls] by simp
  then have "grequests_map send order urls ! i \<noteq> None"
    using scan_responses_Finished [OF assms] by metis
  then show "grequests_map send order urls ! i = map send urls ! i"
    using grequests_map_slots [of send order urls] i by auto
qed

lemma get_responses_retry_Inr:
  assumes "get_responses w issued urls hdrs True = (Inr rs, issued')"
  shows "issued' \<noteq> [] \<and> snd (last issued') = urls \<and>
         rs = map (reply w (length issued' - 1) (fst (last issued'))) urls"
  using assms
  by (subst (asm) get_responses.simps)
     (auto simp: Let_def split: scan_result.splits if_splits dest: grequests_map_Finished)

text \<open>
  C5. Whenever \<open>get_responses\<close> returns a list of responses, the list is index-aligned
  with the URLs: it is the last batch issued, that batch was issued for the whole URL
  list, and its i-th entry is the reply to the i-th URL in that batch. This holds for
  every completion order of the requests, since \<open>completion w\<close> is arbitrary.
\<close>

theorem get_responses_index_aligned:
  assumes "get_responses w issued urls hdrs retry = (Inr rs, issued')"
  shows "issued' \<noteq> [] \<and> snd (last issued') = urls \<and>
         rs = map (reply w (length issued' - 1) (fst (last issued'))) urls"
proof (cases retry)
  case True
  then show ?thesis
    using assms get_responses_retry_Inr [of w issued urls hdrs rs issued'] by simp
next
  case False
  show ?thesis
    using assms False
    by (subst (asm) get_responses.simps)
       (auto simp: Let_def split: scan_result.splits if_splits
             dest: grequests_map_Finished get_responses_retry_Inr)
qed

lemma B_slow_eval:
  "get_responses world_B_slow [] [''A'', ''B'', ''C''] None False =
     (Inr [Some (ok_response ''A''), Some (ok_response ''B''), Some (ok_response ''C'')],
      [(safari_header, [''A'', ''B'', ''C''])])"
  by (simp add: get_responses.simps grequests_map_def world_B_slow_def reply_ok_def
      order_B_last_def ok_response_def int_total_seconds_def upt_rec)

theorem get_responses_index_aligned_witness:
  "get_responses world_B_slow [] [''A'', ''B'', ''C''] None False =
     (Inr [Some (ok_response ''A''), Some (ok_response ''B''), Some (ok_response ''C'')],
      [(safari_header, [''A'', ''B'', ''C''])]) \<and>
   completion world_B_slow 0 3 = [0, 2, 1] \<and>
   [Some (ok_response ''A''), Some (ok_response ''B''), Some (ok_response ''C'')] =
     map (reply world_B_slow 0 safari_header) [''A'', ''B'', ''C'']"
  using get_responses_index_aligned [OF B_slow_eval] B_slow_eval
  by (simp add: world_B_slow_def order_B_last_def upt_rec)

text \<open>
  What \<open>get_responses\<close> does when every request of both batches gets a response and
  every request completes: a 403 in the first batch leads to exactly one more batch,
  for the same URLs under \<open>firefox_header\<close>, and a 403 in that batch to \<open>HTTPError\<close>.
\<close>

lemma scan_responses_present:
  "scan_responses (map Some rs) t =
     (if \<exists>r \<in> set rs. status_code r = 403 then Forbidden
      else Finished (t + sum_list (map (\<lambda>r. int_total_seconds (elapsed r)) rs)))"
  by (induction rs arbitrary: t) (auto simp: add.assoc Let_def)

lemma grequests_map_complete:
  assumes "{..<length urls} \<subseteq> set order"
  shows "grequests_map send order urls = map send urls"
proof -
  define step where
    "step = (\<lambda>slots i. if i < length urls then slots[i := send (urls ! i)] else slots)"
  have len: "length (foldl step slots order) = length slots" for slots order
    by (induction order arbitrary: slots) (auto simp: step_def)
  have inv: "foldl step slots order ! i = send (urls ! i)"
    if "length slots = length urls" and "i < length urls"
      and "i \<in> set order \<or> slots ! i = send (urls ! i)"
    for slots i order
    using that
  proof (induction order arbitrary: slots)
    case Nil
    then show ?case by simp
  next
    case (Cons j order)
    have 1: "length (step slots j) = length urls"
      using Cons.prems(1) by (simp add: step_def)
    have 2: "i \<in> set order \<or> step slots j ! i = send (urls ! i)"
      using Cons.prems by (auto simp: step_def nth_list_update)
    show ?case using Cons.IH [OF 1 Cons.prems(2) 2] by simp
  qed
  show ?thesis
  proof (rule nth_equalityI)
    show "length (grequests_map send order urls) = length (map send urls)"
      unfolding grequests_map_def step_def [symmetric] by (simp add: len)
  next
    fix i assume "i < length (grequests_map send order urls)"
    then have i: "i < length urls"
      unfolding grequests_map_def step_def [symmetric] by (simp add: len)
    then have "i \<in> set order" using assms by auto
    then show "grequests_map send order urls ! i = map send urls ! i"
      unfolding grequests_map_def step_def [symmetric] using i by (simp add: inv)
  qed
qed

lemma get_responses_retry_once:
  assumes complete: "\<And>k n. {..<n} \<subseteq> set (completion w k n)"
    and h1: "h1 = (case hdrs of None \<Rightarrow> safari_header
                   | Some h \<Rightarrow> if h = [] then safari_header else h)"
    and b1: "map (reply w (length issued) h1) urls = map Some rs1"
    and b2: "map (reply w (Suc (length issued)) firefox_header) urls = map Some rs2"
    and f: "\<exists>r \<in> set rs1. status_code r = 403"
  shows "get_responses w issued urls hdrs False =
           (if \<exists>r \<in> set rs2. status_code r = 403
            then Inl (HTTPError ''Received 403 error again: check size, headers, and URL's'')
            else Inr (map Some rs2),
            issued @ [(h1, urls), (firefox_header, urls)])"
proof -
  have g1: "grequests_map (reply w (length issued) h1) (completion w (length issued) (length urls)) urls
              = map Some rs1"
    using grequests_map_complete [OF complete] b1 by simp
  have g2: "grequests_map (reply w (Suc (length issued)) firefox_header)
              (completion w (Suc (length issued)) (length urls)) urls = map Some rs2"
    using grequests_map_complete [OF complete] b2 by simp
  have ff: "firefox_header \<noteq> []" by (simp add: firefox_header_def)
  have "rs1 \<noteq> []" using f by auto
  then have "urls \<noteq> []" using b1 by auto
  then have ne: "rs2 \<noteq> []" using b2 by auto
  have first: "get_responses w issued urls hdrs False =
          get_responses w (issued @ [(h1, urls)]) urls (Some firefox_header) True"
    by (subst get_responses.simps) (simp add: Let_def h1 [symmetric] g1 scan_responses_present f)
  have second: "get_responses w (issued @ [(h1, urls)]) urls (Some firefox_header) True =
           (if \<exists>r \<in> set rs2. status_code r = 403
            then Inl (HTTPError ''Received 403 error again: check size, headers, and URL's'')
            else Inr (map Some rs2),
            issued @ [(h1, urls), (firefox_header, urls)])"
    by (subst get_responses.simps) (simp add: Let_def ff g2 scan_responses_present ne)
  show ?thesis using first second by simp
qed

text \<open>
  C1: the code at the failing input. In the first batch the request for \<open>A\<close> fails
  and the request for \<open>B\<close> is answered with 403. The loop reads \<open>elapsed\<close> of the
  \<open>None\<close> entry first and raises \<open>AttributeError\<close>; one batch has been issued and
  the URLs are not fetched again.
\<close>

theorem get_responses_failure_before_403:
  "grequests_map (reply world_failure_then_403 0 safari_header)
     (completion world_failure_then_403 0 2) [''A'', ''B''] = [None, Some forbidden_response] \<and>
   status_code forbidden_response = 403 \<and>
   get_responses world_failure_then_403 [] [''A'', ''B''] None False =
     (Inl (AttributeError ''NoneType object has no attribute elapsed''),
      [(safari_header, [''A'', ''B''])])"
  by (simp add: get_responses.simps grequests_map_def world_failure_then_403_def
      reply_failure_then_403_def order_in_turn_def forbidden_response_def upt_rec)

text \<open>
  With an empty URL list \<open>get_responses\<close> raises the error of the emptiness test, and
  it never returns an empty list.
\<close>

lemma get_responses_no_urls:
  "get_responses w issued [] hdrs retry =
     (Inl (AttributeError ''No responses were recieved''),
      issued @ [(case hdrs of None \<Rightarrow> safari_header
                 | Some h \<Rightarrow> if h = [] then safari_header else h, [])])"
proof -
  have e: "grequests_map send order [] = []" for send order
    using grequests_map_slots [of send order "[]"] by simp
  show ?thesis
    by (subst get_responses.simps) (simp add: Let_def e)
qed

lemma get_responses_never_empty:
  assumes "get_responses w issued urls hdrs retry = (Inr rs, issued')"
  shows "rs \<noteq> []"
proof -
  have r: "rs' \<noteq> []" if "get_responses w' is' urls' hdrs' True = (Inr rs', is'')"
    for w' is' urls' hdrs' rs' is''
    using that
    by (subst (asm) get_responses.simps)
       (auto simp: Let_def split: scan_result.splits if_splits)
  show ?thesis
  proof (cases retry)
    case True
    then show ?thesis using assms r by simp
  next
    case False
    then show ?thesis
      using assms
      by (subst (asm) get_responses.simps)
         (auto simp: Let_def split: scan_result.splits if_splits dest: r)
  qed
qed

text \<open>
  C7: the code at the failing input. Both requests of the batch fail, the result
  collection is \<open>[None, None]\<close>, and \<open>get_responses\<close> raises the
  \<open>AttributeError\<close> of reading \<open>elapsed\<close> of \<open>None\<close>, not the error of the
  emptiness test.
\<close>

theorem get_responses_all_requests_failed:
  "grequests_map (reply world_down 0 safari_header) (completion world_down 0 2) [''A'', ''B'']
     = [None, None] \<and>
   get_responses world_down [] [''A'', ''B''] None False =
     (Inl (AttributeError ''NoneType object has no attribute elapsed''),
      [(safari_header, [''A'', ''B''])]) \<and>
   AttributeError ''NoneType object has no attribute elapsed''
     \<noteq> AttributeError ''No responses were recieved''"
  by (simp add: get_responses.simps grequests_map_def world_down_def
      reply_down_def order_in_turn_def upt_rec)

section \<open>Properties of \<open>generate_df\<close>\<close>

lemma generate_df_loop_success:
  "map (\<lambda>r. RottenTomatoesScraper_dc bs (content r)) rs = map Inr ms \<Longrightarrow>
   generate_df_loop bs (map Some rs @ rest) (ts, xs, ss) =
   generate_df_loop bs rest
     (ts @ concat (map titles ms), xs @ concat (map review_text ms),
      ss @ concat (map review_scores ms))"
proof (induction rs arbitrary: ms ts xs ss)
  case Nil
  then show ?case by simp
next
  case (Cons r rs)
  then obtain m ms' where ms: "ms = m # ms'" by (cases ms) auto
  with Cons.prems have m: "RottenTomatoesScraper_dc bs (content r) = Inr m"
    and rest: "map (\<lambda>r. RottenTomatoesScraper_dc bs (content r)) rs = map Inr ms'"
    by simp_all
  show ?case using Cons.IH [OF rest] by (simp add: ms m)
qed

lemma titles_per_score:
  assumes "map (\<lambda>r. RottenTomatoesScraper_dc bs (content r)) rs = map Inr ms"
  shows "length (concat (map titles ms)) = length (concat (map review_scores ms))"
  using assms
proof (induction rs arbitrary: ms)
  case Nil
  then show ?case by simp
next
  case (Cons r rs)
  then obtain m ms' where ms: "ms = m # ms'" by (cases ms) auto
  with Cons.prems have m: "RottenTomatoesScraper_dc bs (content r) = Inr m"
    and rest: "map (\<lambda>r. RottenTomatoesScraper_dc bs (content r)) rs = map Inr ms'"
    by simp_all
  show ?case using Cons.IH [OF rest] RottenTomatoesScraper_dc_Inr(4) [OF m] by (simp add: ms)
qed

lemma foo_eval:
  "RottenTomatoesScraper_dc example_parser ''foo'' =
     Inr \<lparr>review_scores = [4, 7 / 2], review_text = [''Good'', ''Fine''], title = ''Foo'',
          titles = [''Foo'', ''Foo'']\<rparr>"
  by (simp add: RottenTomatoesScraper_dc_def example_parser_def extract_review_scores_dc_def
      extract_review_text_dc_def extract_movie_title_dc_def find_all_def find_first_def
      slice_to_minus8_def ex_defs)

lemma short_eval:
  "RottenTomatoesScraper_dc example_parser ''short'' =
     Inr \<lparr>review_scores = [4], review_text = [''Good''], title = [], titles = [[]]\<rparr>"
  by (simp add: RottenTomatoesScraper_dc_def example_parser_def extract_review_scores_dc_def
      extract_review_text_dc_def extract_movie_title_dc_def find_all_def find_first_def
      slice_to_minus8_def ex_defs)

lemma no_ratings_eval:
  "RottenTomatoesScraper_dc example_parser ''no ratings'' =
     Inl (AttributeError ''No star-display tags were found in the content.'')"
  by (simp add: RottenTomatoesScraper_dc_def example_parser_def extract_review_scores_dc_def
      find_all_def ex_defs)

text \<open>
  C3, as the spec states it, fails: extraction succeeds on the first page and fails on
  the second, and \<open>generate_df\<close> raises the error of the second page instead of
  returning a table with the rows of the first.
\<close>

theorem generate_df_failed_page_counterexample:
  "RottenTomatoesScraper_dc example_parser ''foo'' =
     Inr \<lparr>review_scores = [4, 7 / 2], review_text = [''Good'', ''Fine''], title = ''Foo'',
          titles = [''Foo'', ''Foo'']\<rparr> \<and>
   RottenTomatoesScraper_dc example_parser ''no ratings'' =
     Inl (AttributeError ''No star-display tags were found in the content.'') \<and>
   generate_df example_parser [Some (ok_response ''foo''), Some (ok_response ''no ratings'')] =
     Inl (AttributeError ''No star-display tags were found in the content.'')"
  by (simp add: foo_eval no_ratings_eval generate_df_def ok_response_def)

text \<open>
  C3 (amended). \<open>generate_df\<close> has no isolation of failures. When extraction succeeds
  on every page, the table holds exactly the rows of all pages, in the order of the
  pages, provided the review texts are as many as the scores (otherwise
  \<open>DataFrame.from_dict\<close> raises \<open>ValueError\<close>). When extraction fails on a page and
  succeeded on all pages before it, \<open>generate_df\<close> raises the error of that page:
  no table is produced and no skip is recorded.
\<close>

theorem generate_df_no_isolation:
  "(map (\<lambda>r. RottenTomatoesScraper_dc bs (content r)) rs = map Inr ms \<longrightarrow>
      generate_df bs (map Some rs) =
        (if length (concat (map review_text ms)) = length (concat (map review_scores ms))
         then Inr \<lparr>col_Title = concat (map titles ms),
                   col_Review_Text = concat (map review_text ms),
                   col_Review_Score = concat (map review_scores ms)\<rparr>
         else Inl (ValueError ''All arrays must be of the same length''))) \<and>
   (map (\<lambda>r. RottenTomatoesScraper_dc bs (content r)) pre = map Inr ms' \<longrightarrow>
    RottenTomatoesScraper_dc bs (content r) = Inl e \<longrightarrow>
      generate_df bs (map Some pre @ Some r # post) = Inl e)"
proof (intro conjI impI)
  assume a: "map (\<lambda>r. RottenTomatoesScraper_dc bs (content r)) rs = map Inr ms"
  have "generate_df_loop bs (map Some rs @ []) ([], [], []) =
          Inr (concat (map titles ms), concat (map review_text ms), concat (map review_scores ms))"
    using generate_df_loop_success [OF a, of "[]" "[]" "[]" "[]"] by simp
  then show "generate_df bs (map Some rs) =
        (if length (concat (map review_text ms)) = length (concat (map review_scores ms))
         then Inr \<lparr>col_Title = concat (map titles ms),
                   col_Review_Text = concat (map review_text ms),
                   col_Review_Score = concat (map review_scores ms)\<rparr>
         else Inl (ValueError ''All arrays must be of the same length''))"
    using titles_per_score [OF a] by (simp add: generate_df_def DataFrame_from_dict_def)
next
  assume a: "map (\<lambda>r. RottenTomatoesScraper_dc bs (content r)) pre = map Inr ms'"
    and b: "RottenTomatoesScraper_dc bs (content r) = Inl e"
  show "generate_df bs (map Some pre @ Some r # post) = Inl e"
    using generate_df_loop_success [OF a, of "Some r # post" "[]" "[]" "[]"] b
    by (simp add: generate_df_def)
qed

theorem generate_df_no_isolation_witness:
  "generate_df example_parser [Some (ok_response ''foo''), Some (ok_response ''short'')] =
     Inr \<lparr>col_Title = [''Foo'', ''Foo'', []], col_Review_Text = [''Good'', ''Fine'', ''Good''],
          col_Review_Score = [4, 7 / 2, 4]\<rparr> \<and>
   RottenTomatoesScraper_dc example_parser (content (ok_response ''no ratings'')) =
     Inl (AttributeError ''No star-display tags were found in the content.'') \<and>
   generate_df example_parser
     [Some (ok_response ''foo''), Some (ok_response ''no ratings''), Some (ok_response ''short'')] =
     Inl (AttributeError ''No star-display tags were found in the content.'')"
proof -
  let ?foo = "\<lparr>review_scores = [4, 7 / 2], review_text = [''Good'', ''Fine''], title = ''Foo'',
          titles = [''Foo'', ''Foo'']\<rparr> :: char scraper_dc"
  let ?short = "\<lparr>review_scores = [4], review_text = [''Good''], title = [], titles = [[]]\<rparr>
                 :: char scraper_dc"
  have 1: "map (\<lambda>r. RottenTomatoesScraper_dc example_parser (content r))
             [ok_response ''foo'', ok_response ''short''] = map Inr [?foo, ?short]"
    by (simp add: ok_response_def foo_eval short_eval)
  have 2: "map (\<lambda>r. RottenTomatoesScraper_dc example_parser (content r))
             [ok_response ''foo''] = map Inr [?foo]"
    by (simp add: ok_response_def foo_eval)
  have 3: "RottenTomatoesScraper_dc example_parser (content (ok_response ''no ratings'')) =
     Inl (AttributeError ''No star-display tags were found in the content.'')"
    by (simp add: ok_response_def no_ratings_eval)
  note t = generate_df_no_isolation [of example_parser "[ok_response ''foo'', ok_response ''short'']"
      "[?foo, ?short]" "[ok_response ''foo'']" "[?foo]" "ok_response ''no ratings''"
      "AttributeError ''No star-display tags were found in the content.''"
      "[Some (ok_response ''short'')]"]
  show ?thesis
    using t 1 2 3 by simp
qed

end
